theory Spec2Isabelle
  imports Main "HOL-Library.AList"
begin

section \<open>The samplesheet checker of bin/check\_samplesheet.py\<close>

text \<open>
  The program reads a tabular samplesheet, validates and rewrites every row with a
  \<open>RowChecker\<close>, and writes the rows back as CSV. This theory embeds the class
  \<open>RowChecker\<close> and the function \<open>check_samplesheet\<close>.

  Conventions of the embedding:
  \<^item> A row is the Python \<open>dict\<close> that \<open>csv.DictReader\<close> yields. It is an association
    list from column name to cell, in insertion order; \<open>row[k] = v\<close> is
    \<open>AList.update k v row\<close> (an existing key keeps its place, a new key goes to the
    end) and \<open>row[k]\<close> is \<open>map_of row k\<close>, with \<open>KeyError\<close> for a missing key. Cells are
    strings. Every row is a value of its own: the reader builds a fresh \<open>dict\<close> per line.
  \<^item> A method that mutates the row and may raise returns the exception (if any) next
    to the row as it stands at that moment, so that what was already written into the
    row before a \<open>raise\<close> stays visible.
  \<^item> The checker object is a record of the attributes the methods read or write;
    a method returns the checker as it is afterwards. The attributes \<open>_time\<close>,
    \<open>_treatment\<close>, \<open>_include\<close> and \<open>_other\<close> are stored by \<open>__init__\<close> and never read
    again, and are left out.
  \<^item> \<open>os.path.basename\<close> is the one of \<open>posixpath\<close>.
  \<^item> A string is the list of its bytes in UTF-8. The program searches strings for
    ASCII characters only (space, \<open>/\<close>, and the characters of \<open>.RCC\<close>) and tests them
    for emptiness, which gives the same results on bytes as on code points.
  \<^item> Messages sent to the logger are not part of the model; exceptions and exit
    codes are.
\<close>

subsection \<open>Python values and library functions\<close>

type_synonym row = "(string \<times> string) list"

datatype error =
    AssertionError string
  | KeyError string
  | ValueError
  | SystemExit nat

text \<open>\<open>s.endswith(suffix)\<close>.\<close>

definition endswith :: "string \<Rightarrow> string \<Rightarrow> bool" where
  "endswith s suffix =
     (length suffix \<le> length s \<and> drop (length s - length suffix) s = suffix)"

text \<open>\<open>s.replace(old, new)\<close> for one-character \<open>old\<close> and \<open>new\<close>.\<close>

definition replace :: "string \<Rightarrow> char \<Rightarrow> char \<Rightarrow> string" where
  "replace s old new = map (\<lambda>c. if c = old then new else c) s"

text \<open>Iterating over a \<open>str\<close> yields its characters as one-character strings.\<close>

definition iter_str :: "string \<Rightarrow> string list" where
  "iter_str s = map (\<lambda>c. [c]) s"

text \<open>\<open>sep.join(parts)\<close>.\<close>

fun join :: "string \<Rightarrow> string list \<Rightarrow> string" where
  "join sep [] = []"
| "join sep [p] = p"
| "join sep (p # q # ps) = p @ sep @ join sep (q # ps)"

text \<open>\<open>s.rfind(c)\<close>: the greatest index of \<open>c\<close> in \<open>s\<close>, or \<open>-1\<close>.\<close>

primrec rfind :: "string \<Rightarrow> char \<Rightarrow> int" where
  "rfind [] c = - 1"
| "rfind (x # xs) c =
     (let r = rfind xs c
      in if 0 \<le> r then r + 1 else if x = c then 0 else - 1)"

text \<open>
  \<open>posixpath.basename\<close>: \<open>i = p.rfind('/') + 1; return p[i:]\<close>.
\<close>

definition basename :: "string \<Rightarrow> string" where
  "basename p = (let i = rfind p (CHR ''/'') + 1 in drop (nat i) p)"

text \<open>\<open>str(n)\<close> for a natural number: its decimal digits.\<close>

definition digit :: "nat \<Rightarrow> char" where
  "digit d = ''0123456789'' ! d"

fun str :: "nat \<Rightarrow> string" where
  "str n = (if n < 10 then [digit n] else str (n div 10) @ [digit (n mod 10)])"

declare str.simps [simp del]

subsection \<open>RowChecker\<close>

record RowChecker =
  sample_col :: string
  rcc_file :: string
  rcc_file_name :: string
  seen :: "(string \<times> string \<times> string) set"
  modified :: "row list"

text \<open>The class attribute \<open>VALID_FORMATS = ".RCC"\<close>: a \<open>str\<close>, not a tuple.\<close>

definition VALID_FORMATS :: string where
  "VALID_FORMATS = ''.RCC''"

text \<open>\<open>RowChecker()\<close>, every argument at its default.\<close>

definition RowChecker_init :: RowChecker where
  "RowChecker_init =
     \<lparr>sample_col = ''SAMPLE_ID'', rcc_file = ''RCC_FILE'',
      rcc_file_name = ''RCC_FILE_NAME'', seen = {}, modified = []\<rparr>"

definition validate_sample :: "RowChecker \<Rightarrow> row \<Rightarrow> error option \<times> row" where
  "validate_sample self row =
     (case map_of row (sample_col self) of
        None \<Rightarrow> (Some (KeyError (sample_col self)), row)
      | Some s \<Rightarrow>
          if length s \<le> 0 then (Some (AssertionError ''Sample input is required.''), row)
          else (None, AList.update (sample_col self) (replace s (CHR '' '') (CHR ''_'')) row))"

definition validate_rcc_format :: "string \<Rightarrow> error option" where
  "validate_rcc_format filename =
     (if \<not> list_ex (\<lambda>extension. endswith filename extension) (iter_str VALID_FORMATS)
      then Some (AssertionError
             (''The RCC file has an unrecognized extension: '' @ filename @ [CHR 0x0A] @
              ''It should be one of: '' @ join '', '' (iter_str VALID_FORMATS)))
      else None)"

definition validate_rcc_file :: "RowChecker \<Rightarrow> row \<Rightarrow> error option \<times> row" where
  "validate_rcc_file self row =
     (case map_of row (rcc_file self) of
        None \<Rightarrow> (Some (KeyError (rcc_file self)), row)
      | Some f \<Rightarrow>
          if length f \<le> 0 then (Some (AssertionError ''RCC file is required.''), row)
          else (case validate_rcc_format f of
                  Some e \<Rightarrow> (Some e, row)
                | None \<Rightarrow>
                    (case map_of row (rcc_file_name self) of
                       None \<Rightarrow> (None, AList.update (rcc_file_name self) (basename f) row)
                     | Some n \<Rightarrow>
                         if length n \<le> 0
                         then (None, AList.update (rcc_file_name self) (basename f) row)
                         else (None, row))))"

text \<open>
  \<open>validate_and_transform\<close> returns the exception (\<open>None\<close> when it returns normally),
  the row as the call leaves it, and the checker as the call leaves it.
\<close>

definition validate_and_transform ::
    "RowChecker \<Rightarrow> row \<Rightarrow> error option \<times> row \<times> RowChecker" where
  "validate_and_transform self row =
     (case validate_sample self row of
        (Some e, row1) \<Rightarrow> (Some e, row1, self)
      | (None, row1) \<Rightarrow>
          (case validate_rcc_file self row1 of
             (Some e, row2) \<Rightarrow> (Some e, row2, self)
           | (None, row2) \<Rightarrow>
               (case map_of row2 (sample_col self) of
                  None \<Rightarrow> (Some (KeyError (sample_col self)), row2, self)
                | Some s \<Rightarrow>
                    (case map_of row2 (rcc_file self) of
                       None \<Rightarrow> (Some (KeyError (rcc_file self)), row2, self)
                     | Some f \<Rightarrow>
                         (case map_of row2 (rcc_file_name self) of
                            None \<Rightarrow> (Some (KeyError (rcc_file_name self)), row2, self)
                          | Some n \<Rightarrow>
                              (None, row2,
                               self\<lparr>seen := insert (s, f, n) (seen self),
                                    modified := modified self @ [row2]\<rparr>))))))"

text \<open>
  The loop of \<open>validate_unique_samples\<close>. The \<open>Counter\<close> is a function from sample
  name to count (a missing key counts 0). A row without the sample column stops the
  loop with \<open>KeyError\<close>; the rows before it are already renamed.
\<close>

fun rename_loop ::
    "string \<Rightarrow> (string \<Rightarrow> nat) \<Rightarrow> row list \<Rightarrow> error option \<times> row list" where
  "rename_loop col cnt [] = (None, [])"
| "rename_loop col cnt (row # rows) =
     (case map_of row col of
        None \<Rightarrow> (Some (KeyError col), row # rows)
      | Some sample \<Rightarrow>
          (let cnt' = cnt(sample := cnt sample + 1);
               row' = AList.update col (sample @ ''_T'' @ str (cnt' sample)) row;
               (e, rows') = rename_loop col cnt' rows
           in (e, row' # rows')))"

definition validate_unique_samples :: "RowChecker \<Rightarrow> error option \<times> RowChecker" where
  "validate_unique_samples self =
     (if card (seen self) \<noteq> length (modified self)
      then (Some (AssertionError ''The pair of sample name and FASTQ must be unique.''), self)
      else (let (e, rows') = rename_loop (sample_col self) (\<lambda>_. 0) (modified self)
            in (e, self\<lparr>modified := rows'\<rparr>)))"

subsection \<open>check\_samplesheet\<close>

text \<open>
  The \<open>csv\<close> module is a library. \<open>check_samplesheet\<close> is modelled from the point where
  the \<open>DictReader\<close> hands over \<open>reader.fieldnames\<close> and its rows, to the point where the
  \<open>DictWriter\<close> is given the cells of each line. Its rows are rows of the model:
  string keys, string cells.
\<close>

text \<open>
  \<open>dict(zip(keys, values))\<close>: the pairs up to the shorter length, in order; a key that
  comes again keeps its place and takes the later value.
\<close>

definition dict_zip :: "string list \<Rightarrow> string list \<Rightarrow> row" where
  "dict_zip keys vals = fold (\<lambda>(k, v) d. AList.update k v d) (zip keys vals) []"

text \<open>
  The \<open>dict\<close> that \<open>DictReader.__next__\<close> builds from one record that is not empty (an
  empty record is skipped), with the default \<open>restkey=None\<close> and \<open>restval=None\<close>:
  \<^verbatim>\<open>
  d = dict(zip(self.fieldnames, row))
  lf = len(self.fieldnames); lr = len(row)
  if lf < lr: d[self.restkey] = row[lf:]
  elif lf > lr:
      for key in self.fieldnames[lr:]: d[key] = self.restval
  \<close>
  The key \<open>None\<close> and the cells \<open>None\<close> are not strings, so the \<open>dict\<close> is given in three
  parts: its string cells, the list stored under the key \<open>None\<close> (if any), and the keys
  whose cell is \<open>None\<close>. It is a row of the model when the last two parts are absent,
  which is so exactly for a record with as many cells as the header has names.
\<close>

record reader_dict =
  cells :: row
  restkey_cells :: "string list option"
  restval_keys :: "string list"

definition DictReader_next :: "string list \<Rightarrow> string list \<Rightarrow> reader_dict" where
  "DictReader_next fieldnames record =
     (let d = dict_zip fieldnames record;
          lf = length fieldnames;
          lr = length record
      in if lf < lr
         then \<lparr>cells = d, restkey_cells = Some (drop lf record), restval_keys = []\<rparr>
         else if lf > lr
         then \<lparr>cells = filter (\<lambda>(k, v). k \<notin> set (drop lr fieldnames)) d,
               restkey_cells = None,
               restval_keys = remdups (drop lr fieldnames)\<rparr>
         else \<lparr>cells = d, restkey_cells = None, restval_keys = []\<rparr>)"

text \<open>
  The loop over the reader: an \<open>AssertionError\<close> is caught and becomes \<open>sys.exit(1)\<close>;
  any other exception propagates.
\<close>

fun validate_rows :: "RowChecker \<Rightarrow> row list \<Rightarrow> error + RowChecker" where
  "validate_rows checker [] = Inr checker"
| "validate_rows checker (row # rows) =
     (case validate_and_transform checker row of
        (Some (AssertionError m), _, _) \<Rightarrow> Inl (SystemExit 1)
      | (Some e, _, _) \<Rightarrow> Inl e
      | (None, _, checker') \<Rightarrow> validate_rows checker' rows)"

text \<open>
  \<open>DictWriter.writerow\<close> with the default \<open>extrasaction='raise'\<close> and \<open>restval=''\<close>:
  the cells of the row in the order of the writer's field names.
\<close>

definition writerow :: "string list \<Rightarrow> row \<Rightarrow> error + string list" where
  "writerow header row =
     (if \<exists>k \<in> set (map fst row). k \<notin> set header then Inl ValueError
      else Inr (map (\<lambda>k. case map_of row k of None \<Rightarrow> [] | Some v \<Rightarrow> v) header))"

fun writerows :: "string list \<Rightarrow> row list \<Rightarrow> error + string list list" where
  "writerows header [] = Inr []"
| "writerows header (row # rows) =
     (case writerow header row of
        Inl e \<Rightarrow> Inl e
      | Inr line \<Rightarrow>
          (case writerows header rows of
             Inl e \<Rightarrow> Inl e
           | Inr lines \<Rightarrow> Inr (line # lines)))"

text \<open>
  The result of \<open>check_samplesheet\<close> is the exception that ends it, or the lines
  written to the output file, each as its list of cells, the header line first.
\<close>

definition check_samplesheet :: "string list \<Rightarrow> row list \<Rightarrow> error + string list list" where
  "check_samplesheet fieldnames rows =
     (if \<not> {''RCC_FILE'', ''SAMPLE_ID''} \<subseteq> set fieldnames then Inl (SystemExit 1)
      else (case validate_rows RowChecker_init rows of
              Inl e \<Rightarrow> Inl e
            | Inr checker \<Rightarrow>
                (let header = (if ''RCC_FILE_NAME'' \<notin> set fieldnames
                               then fieldnames @ [''RCC_FILE_NAME''] else fieldnames)
                 in (case writerows header (modified checker) of
                       Inl e \<Rightarrow> Inl e
                     | Inr lines \<Rightarrow> Inr (header # lines)))))"

subsection \<open>Sequences of calls\<close>

text \<open>
  The checker after a caller has offered the rows to \<open>validate_and_transform\<close> one
  after the other, whatever each call's outcome.
\<close>

definition offer_all :: "RowChecker \<Rightarrow> row list \<Rightarrow> RowChecker" where
  "offer_all self rows = fold (\<lambda>row c. snd (snd (validate_and_transform c row))) rows self"

text \<open>
  The cells of a row in the three key columns, as \<open>validate_and_transform\<close> reads
  them for the seen-set.
\<close>

definition key_triple ::
    "RowChecker \<Rightarrow> row \<Rightarrow> string option \<times> string option \<times> string option" where
  "key_triple self row =
     (map_of row (sample_col self), map_of row (rcc_file self),
      map_of row (rcc_file_name self))"

text \<open>The two public methods, and the checker after any sequence of calls of them.\<close>

datatype call = Validate_and_transform row | Validate_unique_samples

fun do_call :: "call \<Rightarrow> RowChecker \<Rightarrow> RowChecker" where
  "do_call (Validate_and_transform row) self = snd (snd (validate_and_transform self row))"
| "do_call Validate_unique_samples self = snd (validate_unique_samples self)"

definition run_calls :: "RowChecker \<Rightarrow> call list \<Rightarrow> RowChecker" where
  "run_calls self calls = fold do_call calls self"

subsection \<open>Invariants of the checker\<close>

text \<open>
  The seen-set holds exactly the key triples of the accepted rows, and every accepted
  row has a basename cell that is not empty.
\<close>

definition triples_recorded :: "RowChecker \<Rightarrow> bool" where
  "triples_recorded c \<longleftrightarrow>
     (\<lambda>(s, f, n). (Some s, Some f, Some n)) ` seen c = key_triple c ` set (modified c)"

definition basenames_present :: "RowChecker \<Rightarrow> bool" where
  "basenames_present c \<longleftrightarrow>
     (\<forall>row \<in> set (modified c). \<exists>n. map_of row (rcc_file_name c) = Some n \<and> n \<noteq> [])"

subsection \<open>Facts about the library functions\<close>

lemma endswith_single: "endswith s [c] \<longleftrightarrow> s \<noteq> [] \<and> last s = c"
proof (cases s rule: rev_cases)
  case Nil
  then show ?thesis by (simp add: endswith_def)
next
  case (snoc ys y)
  then show ?thesis by (auto simp add: endswith_def)
qed

text \<open>
  What \<open>_validate_rcc_format\<close> lets through: iterating over the string \<open>".RCC"\<close>
  tests the file name against the one-character suffixes \<open>"."\<close>, \<open>"R"\<close> and \<open>"C"\<close>.
\<close>

lemma validate_rcc_format_None:
  "validate_rcc_format f = None \<longleftrightarrow>
     f \<noteq> [] \<and> last f \<in> {CHR ''.'', CHR ''R'', CHR ''C''}"
  by (auto simp add: validate_rcc_format_def VALID_FORMATS_def iter_str_def endswith_single)

lemma rfind_bounds: "- 1 \<le> rfind p c \<and> rfind p c < int (length p)"
  by (induction p) (auto simp add: Let_def)

lemma rfind_last: "p \<noteq> [] \<Longrightarrow> rfind p c = int (length p) - 1 \<Longrightarrow> last p = c"
proof (induction p)
  case Nil
  then show ?case by simp
next
  case (Cons x xs)
  show ?case
  proof (cases "xs = []")
    case True
    with Cons.prems show ?thesis by (auto simp add: Let_def split: if_splits)
  next
    case False
    have b: "- 1 \<le> rfind xs c \<and> rfind xs c < int (length xs)" by (rule rfind_bounds)
    from False have "0 < length xs" by simp
    with Cons.prems b have "rfind xs c = int (length xs) - 1"
      by (auto simp add: Let_def split: if_splits)
    with Cons.IH False show ?thesis by simp
  qed
qed

lemma basename_nonempty:
  assumes ne: "p \<noteq> []" and l: "last p \<noteq> CHR ''/''"
  shows "basename p \<noteq> []"
proof -
  have b: "- 1 \<le> rfind p (CHR ''/'') \<and> rfind p (CHR ''/'') < int (length p)"
    by (rule rfind_bounds)
  from rfind_last[OF ne, of "CHR ''/''"] l
  have "rfind p (CHR ''/'') \<noteq> int (length p) - 1" by auto
  with b have "nat (rfind p (CHR ''/'') + 1) < length p" by auto
  then show ?thesis by (simp add: basename_def Let_def)
qed

lemma basename_of_accepted: "validate_rcc_format f = None \<Longrightarrow> basename f \<noteq> []"
  by (rule basename_nonempty) (auto simp add: validate_rcc_format_None)

lemma replace_no_old: "old \<noteq> new \<Longrightarrow> old \<notin> set (replace s old new)"
  by (auto simp add: replace_def)

lemma replace_idem: "replace (replace s old new) old new = replace s old new"
  by (simp add: replace_def)

lemma replace_Nil_iff: "replace s old new = [] \<longleftrightarrow> s = []"
  by (simp add: replace_def)

lemma replace_all_old: "set s \<subseteq> {old} \<Longrightarrow> replace s old new = replicate (length s) new"
  by (induction s) (auto simp add: replace_def)

subsection \<open>Facts about the validation methods\<close>

lemma validate_sample_None:
  "validate_sample self row = (None, row1) \<longleftrightarrow>
     (\<exists>s. map_of row (sample_col self) = Some s \<and> s \<noteq> [] \<and>
          row1 = AList.update (sample_col self) (replace s (CHR '' '') (CHR ''_'')) row)"
  by (auto simp add: validate_sample_def split: option.splits)

lemma validate_sample_error:
  "validate_sample self row = (Some e, row1) \<Longrightarrow> row1 = row"
  by (auto simp add: validate_sample_def split: option.splits if_splits)

lemma validate_rcc_file_None:
  "validate_rcc_file self row1 = (None, row2) \<longleftrightarrow>
     (\<exists>f. map_of row1 (rcc_file self) = Some f \<and> f \<noteq> [] \<and> validate_rcc_format f = None \<and>
          row2 = (if map_of row1 (rcc_file_name self) = None \<or>
                     map_of row1 (rcc_file_name self) = Some []
                  then AList.update (rcc_file_name self) (basename f) row1 else row1))"
  by (auto simp add: validate_rcc_file_def split: option.splits)

lemma validate_rcc_file_error:
  "validate_rcc_file self row1 = (Some e, row2) \<Longrightarrow> row2 = row1"
  by (auto simp add: validate_rcc_file_def split: option.splits if_splits)

lemma validate_and_transform_error:
  "fst (validate_and_transform self row) \<noteq> None \<Longrightarrow>
     snd (snd (validate_and_transform self row)) = self"
  by (auto simp add: validate_and_transform_def split: option.splits prod.splits)

lemma validate_and_transform_accepted:
  assumes "fst (validate_and_transform self row) = None"
  obtains row1 row2 s f n where
    "validate_sample self row = (None, row1)"
    "validate_rcc_file self row1 = (None, row2)"
    "map_of row2 (sample_col self) = Some s"
    "map_of row2 (rcc_file self) = Some f"
    "map_of row2 (rcc_file_name self) = Some n"
    "validate_and_transform self row =
       (None, row2, self\<lparr>seen := insert (s, f, n) (seen self),
                          modified := modified self @ [row2]\<rparr>)"
  using assms
  by (auto simp add: validate_and_transform_def split: option.splits prod.splits)


lemma validate_rcc_file_name_present:
  assumes "validate_rcc_file self row1 = (None, row2)"
  shows "\<exists>n. map_of row2 (rcc_file_name self) = Some n \<and> n \<noteq> []"
proof -
  from assms obtain f where fmt: "validate_rcc_format f = None"
    and row2: "row2 = (if map_of row1 (rcc_file_name self) = None \<or>
                     map_of row1 (rcc_file_name self) = Some []
                  then AList.update (rcc_file_name self) (basename f) row1 else row1)"
    by (auto simp add: validate_rcc_file_None)
  show ?thesis
  proof (cases "map_of row1 (rcc_file_name self) = None \<or>
                     map_of row1 (rcc_file_name self) = Some []")
    case True
    with row2 have "map_of row2 (rcc_file_name self) = Some (basename f)"
      by (simp add: update_conv')
    with basename_of_accepted[OF fmt] show ?thesis by simp
  next
    case False
    with row2 show ?thesis by auto
  qed
qed

lemma accepted_row_sample:
  assumes acc: "fst (validate_and_transform self row) = None"
    and sample: "map_of row (sample_col self) = Some s"
  shows "map_of (fst (snd (validate_and_transform self row))) (sample_col self)
           = Some (replace s (CHR '' '') (CHR ''_''))"
    and "modified (snd (snd (validate_and_transform self row)))
           = modified self @ [fst (snd (validate_and_transform self row))]"
proof -
  from acc obtain row1 row2 s' f n where
    vs: "validate_sample self row = (None, row1)" and
    vf: "validate_rcc_file self row1 = (None, row2)" and
    vt: "validate_and_transform self row =
       (None, row2, self\<lparr>seen := insert (s', f, n) (seen self),
                          modified := modified self @ [row2]\<rparr>)"
    by (rule validate_and_transform_accepted)
  from vs sample have ne: "s \<noteq> []"
    and row1: "row1 = AList.update (sample_col self) (replace s (CHR '' '') (CHR ''_'')) row"
    by (auto simp add: validate_sample_None)
  from row1 have l1: "map_of row1 (sample_col self) = Some (replace s (CHR '' '') (CHR ''_''))"
    by (simp add: update_conv')
  from ne have rne: "replace s (CHR '' '') (CHR ''_'') \<noteq> []" by (simp add: replace_Nil_iff)
  from vf l1 rne have "map_of row2 (sample_col self) = Some (replace s (CHR '' '') (CHR ''_''))"
    by (auto simp add: validate_rcc_file_None update_conv' split: if_splits)
  with vt show "map_of (fst (snd (validate_and_transform self row))) (sample_col self)
      = Some (replace s (CHR '' '') (CHR ''_''))" by simp
  from vt show "modified (snd (snd (validate_and_transform self row)))
      = modified self @ [fst (snd (validate_and_transform self row))]" by simp
qed

subsection \<open>Facts about sequences of calls and the rename loop\<close>

lemma validate_and_transform_columns:
  "sample_col (snd (snd (validate_and_transform self row))) = sample_col self"
  "rcc_file (snd (snd (validate_and_transform self row))) = rcc_file self"
  "rcc_file_name (snd (snd (validate_and_transform self row))) = rcc_file_name self"
  by (auto simp add: validate_and_transform_def split: option.splits prod.splits)

lemma key_triple_cong:
  "sample_col c' = sample_col c \<Longrightarrow> rcc_file c' = rcc_file c \<Longrightarrow>
   rcc_file_name c' = rcc_file_name c \<Longrightarrow> key_triple c' = key_triple c"
  by (simp add: key_triple_def fun_eq_iff)

lemma triples_recorded_step:
  assumes "triples_recorded c"
  shows "triples_recorded (snd (snd (validate_and_transform c row)))"
proof (cases "fst (validate_and_transform c row) = None")
  case False
  then have "snd (snd (validate_and_transform c row)) = c"
    by (rule validate_and_transform_error)
  with assms show ?thesis by simp
next
  case True
  then obtain row1 row2 s f n where
    s: "map_of row2 (sample_col c) = Some s" and
    f: "map_of row2 (rcc_file c) = Some f" and
    n: "map_of row2 (rcc_file_name c) = Some n" and
    vt: "validate_and_transform c row =
       (None, row2, c\<lparr>seen := insert (s, f, n) (seen c),
                       modified := modified c @ [row2]\<rparr>)"
    by (rule validate_and_transform_accepted)
  from s f n have k: "key_triple c row2 = (Some s, Some f, Some n)"
    by (simp add: key_triple_def)
  have kc: "key_triple (c\<lparr>seen := insert (s, f, n) (seen c),
                       modified := modified c @ [row2]\<rparr>) = key_triple c"
    by (rule key_triple_cong) simp_all
  from assms k show ?thesis
    by (simp add: vt triples_recorded_def kc)
qed

lemma triples_recorded_offer_all:
  "triples_recorded c \<Longrightarrow> triples_recorded (offer_all c rows)"
proof (induction rows arbitrary: c)
  case Nil
  then show ?case by (simp add: offer_all_def)
next
  case (Cons row rows)
  from Cons.prems have "triples_recorded (snd (snd (validate_and_transform c row)))"
    by (rule triples_recorded_step)
  then have "triples_recorded (offer_all (snd (snd (validate_and_transform c row))) rows)"
    by (rule Cons.IH)
  then show ?case by (simp add: offer_all_def)
qed

lemma offer_all_columns:
  "sample_col (offer_all c rows) = sample_col c"
  "rcc_file (offer_all c rows) = rcc_file c"
  "rcc_file_name (offer_all c rows) = rcc_file_name c"
  by (induction rows arbitrary: c) (simp_all add: offer_all_def validate_and_transform_columns)

lemma triples_recorded_card:
  assumes "triples_recorded c"
  shows "card (seen c) = card (set (map (key_triple c) (modified c)))"
proof -
  have inj: "inj_on (\<lambda>(s, f, n). (Some s, Some f, Some n)) (seen c)"
    by (auto simp add: inj_on_def)
  from card_image[OF inj] assms show ?thesis
    by (simp add: triples_recorded_def)
qed

lemma not_distinct_nth:
  "\<not> distinct xs \<longleftrightarrow> (\<exists>i j. i < j \<and> j < length xs \<and> xs ! i = xs ! j)"
proof
  assume "\<not> distinct xs"
  then obtain i j where "i < length xs" "j < length xs" "i \<noteq> j" "xs ! i = xs ! j"
    by (auto simp add: distinct_conv_nth)
  then consider "i < j \<and> j < length xs \<and> xs ! i = xs ! j"
    | "j < i \<and> i < length xs \<and> xs ! j = xs ! i"
    by (cases "i < j") auto
  then show "\<exists>i j. i < j \<and> j < length xs \<and> xs ! i = xs ! j"
    by cases blast+
next
  assume "\<exists>i j. i < j \<and> j < length xs \<and> xs ! i = xs ! j"
  then obtain i j where "i < j" "j < length xs" "xs ! i = xs ! j" by blast
  then have "i < length xs \<and> j < length xs \<and> i \<noteq> j \<and> xs ! i = xs ! j" by simp
  then show "\<not> distinct xs" unfolding distinct_conv_nth by blast
qed

lemma rename_loop_no_assertion:
  "rename_loop col cnt rows = (e, rows') \<Longrightarrow> e \<noteq> Some (AssertionError m)"
proof (induction rows arbitrary: cnt e rows')
  case Nil
  then show ?case by simp
next
  case (Cons row rows)
  show ?case
  proof (cases "map_of row col")
    case None
    with Cons.prems show ?thesis by auto
  next
    case (Some sample)
    obtain e1 rows1 where r: "rename_loop col (cnt(sample := cnt sample + 1)) rows = (e1, rows1)"
      by (cases "rename_loop col (cnt(sample := cnt sample + 1)) rows")
    with Cons.prems Some have "e = e1" by (simp add: Let_def)
    with Cons.IH[OF r] show ?thesis by simp
  qed
qed

lemma rename_loop_Cons:
  assumes "map_of row col = Some sample"
    and "rename_loop col (cnt(sample := cnt sample + 1)) rows = (e1, rows1)"
  shows "rename_loop col cnt (row # rows)
     = (e1, AList.update col (sample @ ''_T'' @ str (cnt sample + 1)) row # rows1)"
  using assms by (simp add: Let_def)

lemma rename_loop_rows:
  "rename_loop col cnt rows = (e, rows') \<Longrightarrow>
   list_all2 (\<lambda>r r'. r' = r \<or> (\<exists>v. v \<noteq> [] \<and> r' = AList.update col v r)) rows rows'"
proof (induction rows arbitrary: cnt e rows')
  case Nil
  then show ?case by simp
next
  case (Cons row rows)
  show ?case
  proof (cases "map_of row col")
    case None
    with Cons.prems show ?thesis by (auto simp add: list_all2_refl)
  next
    case (Some sample)
    obtain e1 rows1 where r: "rename_loop col (cnt(sample := cnt sample + 1)) rows = (e1, rows1)"
      by (cases "rename_loop col (cnt(sample := cnt sample + 1)) rows")
    from rename_loop_Cons[OF Some r] Cons.prems
    have rows': "rows' = AList.update col (sample @ ''_T'' @ str (cnt sample + 1)) row # rows1"
      by simp
    from Cons.IH[OF r] rows' show ?thesis by auto
  qed
qed

lemma rename_loop_updates:
  "rename_loop col cnt rows = (None, rows') \<Longrightarrow>
   list_all2 (\<lambda>r r'. \<exists>s. map_of r col = Some s \<and>
            (\<exists>v. r' = AList.update col (s @ ''_T'' @ v) r)) rows rows'"
proof (induction rows arbitrary: cnt rows')
  case Nil
  then show ?case by simp
next
  case (Cons row rows)
  from Cons.prems obtain sample where sm: "map_of row col = Some sample"
    by (cases "map_of row col") auto
  obtain e1 rows1 where r: "rename_loop col (cnt(sample := cnt sample + 1)) rows = (e1, rows1)"
    by (cases "rename_loop col (cnt(sample := cnt sample + 1)) rows")
  from rename_loop_Cons[OF sm r] Cons.prems
  have e1: "e1 = None"
    and rows': "rows' = AList.update col (sample @ ''_T'' @ str (cnt sample + 1)) row # rows1"
    by simp_all
  from r e1 have "rename_loop col (cnt(sample := cnt sample + 1)) rows = (None, rows1)" by simp
  from Cons.IH[OF this] sm rows' show ?case by auto
qed

lemma rename_loop_numbering:
  "rename_loop col cnt rows = (None, rows') \<Longrightarrow>
   map (\<lambda>(r, r'). map_of r' col)
       (filter (\<lambda>(r, r'). map_of r col = Some s) (zip rows rows'))
     = map (\<lambda>n. Some (s @ ''_T'' @ str n))
         [Suc (cnt s) ..< Suc (cnt s + length (filter (\<lambda>r. map_of r col = Some s) rows))]"
proof (induction rows arbitrary: cnt rows')
  case Nil
  then show ?case by simp
next
  case (Cons row rows)
  from Cons.prems obtain sample where sm: "map_of row col = Some sample"
    by (cases "map_of row col") auto
  let ?cnt = "cnt(sample := cnt sample + 1)"
  obtain e1 rows1 where r: "rename_loop col ?cnt rows = (e1, rows1)"
    by (cases "rename_loop col ?cnt rows")
  from rename_loop_Cons[OF sm r] Cons.prems
  have e1: "e1 = None"
    and rows': "rows' = AList.update col (sample @ ''_T'' @ str (cnt sample + 1)) row # rows1"
    by simp_all
  from r e1 have r1: "rename_loop col ?cnt rows = (None, rows1)" by simp
  note ih = Cons.IH[OF r1]
  show ?case
  proof (cases "sample = s")
    case True
    have "[Suc (cnt s) ..< Suc (cnt s + Suc (length (filter (\<lambda>r. map_of r col = Some s) rows)))]
        = Suc (cnt s) # [Suc (Suc (cnt s)) ..<
             Suc (Suc (cnt s) + length (filter (\<lambda>r. map_of r col = Some s) rows))]"
      using upt_conv_Cons[of "Suc (cnt s)"
          "Suc (cnt s + Suc (length (filter (\<lambda>r. map_of r col = Some s) rows)))"]
      by simp
    with True ih sm rows' show ?thesis
      by (simp add: update_conv')
  next
    case False
    with ih sm rows' show ?thesis by simp
  qed
qed

lemma validate_unique_samples_result:
  "validate_unique_samples self = (e, self') \<Longrightarrow>
     (e = Some (AssertionError ''The pair of sample name and FASTQ must be unique.'') \<and>
      self' = self) \<or>
     (card (seen self) = length (modified self) \<and>
      rename_loop (sample_col self) (\<lambda>_. 0) (modified self) = (e, modified self') \<and>
      self' = self\<lparr>modified := modified self'\<rparr>)"
  by (auto simp add: validate_unique_samples_def split: if_splits prod.splits)

lemma validate_unique_samples_fields:
  "sample_col (snd (validate_unique_samples self)) = sample_col self"
  "rcc_file (snd (validate_unique_samples self)) = rcc_file self"
  "rcc_file_name (snd (validate_unique_samples self)) = rcc_file_name self"
  "seen (snd (validate_unique_samples self)) = seen self"
  by (simp_all add: validate_unique_samples_def split: prod.splits)

lemma accepted_row_basename:
  assumes "fst (validate_and_transform self row) = None"
  shows "\<exists>n. map_of (fst (snd (validate_and_transform self row))) (rcc_file_name self) = Some n
           \<and> n \<noteq> []"
proof -
  from assms obtain row1 row2 s f n where
    vf: "validate_rcc_file self row1 = (None, row2)" and
    vt: "validate_and_transform self row =
       (None, row2, self\<lparr>seen := insert (s, f, n) (seen self),
                          modified := modified self @ [row2]\<rparr>)"
    by (rule validate_and_transform_accepted)
  from validate_rcc_file_name_present[OF vf] vt show ?thesis by simp
qed

lemma basenames_present_validate_and_transform:
  assumes "basenames_present c"
  shows "basenames_present (snd (snd (validate_and_transform c row)))"
proof (cases "fst (validate_and_transform c row) = None")
  case False
  then have "snd (snd (validate_and_transform c row)) = c"
    by (rule validate_and_transform_error)
  with assms show ?thesis by simp
next
  case True
  then obtain row2 s f n where
    vt: "validate_and_transform c row =
       (None, row2, c\<lparr>seen := insert (s, f, n) (seen c),
                       modified := modified c @ [row2]\<rparr>)"
    by (rule validate_and_transform_accepted)
  from accepted_row_basename[OF True] vt
  have "\<exists>n. map_of row2 (rcc_file_name c) = Some n \<and> n \<noteq> []" by simp
  with assms show ?thesis by (auto simp add: vt basenames_present_def)
qed

lemma basenames_present_validate_unique_samples:
  assumes "basenames_present c"
  shows "basenames_present (snd (validate_unique_samples c))"
proof -
  obtain e c' where v: "validate_unique_samples c = (e, c')"
    by (cases "validate_unique_samples c")
  from validate_unique_samples_result[OF v]
  consider "c' = c"
    | "rename_loop (sample_col c) (\<lambda>_. 0) (modified c) = (e, modified c')" by blast
  then show ?thesis
  proof cases
    case 1
    with assms v show ?thesis by simp
  next
    case 2
    note rel = rename_loop_rows[OF 2]
    have name: "rcc_file_name c' = rcc_file_name c"
      using validate_unique_samples_fields(3)[of c] v by simp
    have "\<exists>n. map_of row' (rcc_file_name c) = Some n \<and> n \<noteq> []"
      if "row' \<in> set (modified c')" for row'
    proof -
      from that obtain i where i: "i < length (modified c')" and r': "row' = modified c' ! i"
        by (auto simp add: in_set_conv_nth)
      from rel have len: "length (modified c) = length (modified c')"
        by (rule list_all2_lengthD)
      let ?r = "modified c ! i"
      from i len have mem: "?r \<in> set (modified c)" by simp
      with assms obtain n where n: "map_of ?r (rcc_file_name c) = Some n" "n \<noteq> []"
        by (auto simp add: basenames_present_def)
      from list_all2_nthD2[OF rel i] r'
      have "row' = ?r \<or> (\<exists>v. v \<noteq> [] \<and> row' = AList.update (sample_col c) v ?r)" by simp
      with n show ?thesis by (auto simp add: update_conv')
    qed
    with name v show ?thesis by (simp add: basenames_present_def)
  qed
qed

lemma run_calls_invariant:
  "basenames_present c \<Longrightarrow>
     basenames_present (run_calls c calls) \<and>
     rcc_file_name (run_calls c calls) = rcc_file_name c"
proof (induction calls arbitrary: c)
  case Nil
  then show ?case by (simp add: run_calls_def)
next
  case (Cons call calls)
  have step: "basenames_present (do_call call c) \<and> rcc_file_name (do_call call c) = rcc_file_name c"
  proof (cases call)
    case (Validate_and_transform row)
    with Cons.prems show ?thesis
      by (simp add: basenames_present_validate_and_transform validate_and_transform_columns)
  next
    case Validate_unique_samples
    with Cons.prems show ?thesis
      by (simp add: basenames_present_validate_unique_samples validate_unique_samples_fields)
  qed
  with Cons.IH[of "do_call call c"] show ?case by (simp add: run_calls_def)
qed

lemma rename_loop_other_column:
  assumes "rename_loop col cnt rows = (e, rows')" and "k \<noteq> col"
  shows "map (\<lambda>r. map_of r k) rows' = map (\<lambda>r. map_of r k) rows"
proof -
  note rel = rename_loop_rows[OF assms(1)]
  then have len: "length rows = length rows'" by (rule list_all2_lengthD)
  show ?thesis
  proof (rule nth_equalityI)
    show "length (map (\<lambda>r. map_of r k) rows') = length (map (\<lambda>r. map_of r k) rows)"
      using len by simp
  next
    fix i assume "i < length (map (\<lambda>r. map_of r k) rows')"
    then have i: "i < length rows'" by simp
    from list_all2_nthD2[OF rel i] assms(2)
    have "map_of (rows' ! i) k = map_of (rows ! i) k" by (auto simp add: update_conv')
    with i len show "map (\<lambda>r. map_of r k) rows' ! i = map (\<lambda>r. map_of r k) rows ! i" by simp
  qed
qed

lemma validate_and_transform_same_columns:
  assumes "sample_col c = sample_col c'" "rcc_file c = rcc_file c'"
    "rcc_file_name c = rcc_file_name c'"
  shows "fst (validate_and_transform c row) = fst (validate_and_transform c' row)"
    and "fst (snd (validate_and_transform c row)) = fst (snd (validate_and_transform c' row))"
proof -
  have vs: "validate_sample c = validate_sample c'"
    using assms by (auto simp add: validate_sample_def fun_eq_iff split: option.splits)
  have vf: "validate_rcc_file c = validate_rcc_file c'"
    using assms by (auto simp add: validate_rcc_file_def fun_eq_iff split: option.splits)
  show "fst (validate_and_transform c row) = fst (validate_and_transform c' row)"
    unfolding validate_and_transform_def vs vf assms
    by (simp split: prod.splits option.splits)
  show "fst (snd (validate_and_transform c row)) = fst (snd (validate_and_transform c' row))"
    unfolding validate_and_transform_def vs vf assms
    by (simp split: prod.splits option.splits)
qed

lemma validate_rows_all_accepted:
  assumes "sample_col c = sample_col c0" "rcc_file c = rcc_file c0"
    "rcc_file_name c = rcc_file_name c0"
    and "\<forall>row \<in> set rows. fst (validate_and_transform c0 row) = None"
  shows "\<exists>c'. validate_rows c rows = Inr c' \<and>
           modified c' = modified c @ map (\<lambda>row. fst (snd (validate_and_transform c0 row))) rows"
  using assms
proof (induction rows arbitrary: c)
  case Nil
  then show ?case by simp
next
  case (Cons row rows)
  note cols = Cons.prems(1-3)
  from Cons.prems(4) have acc0: "fst (validate_and_transform c0 row) = None" by simp
  with validate_and_transform_same_columns(1)[OF cols, of row]
  have acc: "fst (validate_and_transform c row) = None" by simp
  then obtain row2 s f n where
    vt: "validate_and_transform c row =
       (None, row2, c\<lparr>seen := insert (s, f, n) (seen c),
                       modified := modified c @ [row2]\<rparr>)"
    by (rule validate_and_transform_accepted)
  let ?c1 = "c\<lparr>seen := insert (s, f, n) (seen c), modified := modified c @ [row2]\<rparr>"
  from validate_and_transform_same_columns(2)[OF cols, of row] vt
  have row2: "row2 = fst (snd (validate_and_transform c0 row))" by simp
  from cols have cols1: "sample_col ?c1 = sample_col c0" "rcc_file ?c1 = rcc_file c0"
    "rcc_file_name ?c1 = rcc_file_name c0" by simp_all
  from Cons.prems(4) have rest: "\<forall>row \<in> set rows. fst (validate_and_transform c0 row) = None"
    by simp
  from Cons.IH[OF cols1 rest] obtain c' where
    "validate_rows ?c1 rows = Inr c'"
    "modified c' = modified ?c1 @ map (\<lambda>row. fst (snd (validate_and_transform c0 row))) rows"
    by blast
  with vt row2 show ?case by simp
qed

lemma accepted_row_keys:
  assumes "fst (validate_and_transform self row) = None"
  shows "set (map fst (fst (snd (validate_and_transform self row))))
           \<subseteq> insert (rcc_file_name self) (set (map fst row))"
proof -
  from assms obtain row1 row2 s f n where
    vs: "validate_sample self row = (None, row1)" and
    vf: "validate_rcc_file self row1 = (None, row2)" and
    vt: "validate_and_transform self row =
       (None, row2, self\<lparr>seen := insert (s, f, n) (seen self),
                          modified := modified self @ [row2]\<rparr>)"
    by (rule validate_and_transform_accepted)
  from vs obtain s0 v where s0: "map_of row (sample_col self) = Some s0"
    and row1: "row1 = AList.update (sample_col self) v row"
    by (auto simp add: validate_sample_None)
  from s0 have "(sample_col self, s0) \<in> set row" by (rule map_of_SomeD)
  then have "sample_col self \<in> fst ` set row" by force
  with row1 have k1: "fst ` set row1 = fst ` set row" by (auto simp add: dom_update)
  from vf obtain w where "row2 = AList.update (rcc_file_name self) w row1 \<or> row2 = row1"
    by (auto simp add: validate_rcc_file_None split: if_splits)
  then have "fst ` set row2 = {rcc_file_name self} \<union> fst ` set row1 \<or> row2 = row1"
    using dom_update[of "rcc_file_name self" w row1] by auto
  then have "fst ` set row2 \<subseteq> insert (rcc_file_name self) (fst ` set row1)"
    by auto
  with k1 vt show ?thesis by simp
qed

lemma writerows_all:
  "\<forall>row \<in> set rows. set (map fst row) \<subseteq> set header \<Longrightarrow>
   writerows header rows
     = Inr (map (\<lambda>row. map (\<lambda>k. case map_of row k of None \<Rightarrow> [] | Some v \<Rightarrow> v) header) rows)"
  by (induction rows) (auto simp add: writerow_def)

lemmas eval_defs =
  check_samplesheet_def dict_zip_def RowChecker_init_def validate_and_transform_def
  validate_sample_def validate_rcc_file_def validate_rcc_format_def VALID_FORMATS_def
  iter_str_def endswith_def replace_def basename_def writerow_def offer_all_def
  run_calls_def validate_unique_samples_def key_triple_def digit_def

subsection \<open>The scenarios of the whole run\<close>

text \<open>
  The rows that the reader yields in the scenarios: each record has as many cells as
  the header \<open>SAMPLE_ID, RCC_FILE\<close> has names, so the \<open>dict\<close> is a row of the model, each
  name with its cell.
\<close>

lemma reader_yields_scenario_rows:
  "DictReader_next [''SAMPLE_ID'', ''RCC_FILE''] [''Sample A'', ''run1.RCC'']
     = \<lparr>cells = [(''SAMPLE_ID'', ''Sample A''), (''RCC_FILE'', ''run1.RCC'')],
        restkey_cells = None, restval_keys = []\<rparr>"
  "DictReader_next [''SAMPLE_ID'', ''RCC_FILE''] [''S1'', ''a.RCC'']
     = \<lparr>cells = [(''SAMPLE_ID'', ''S1''), (''RCC_FILE'', ''a.RCC'')],
        restkey_cells = None, restval_keys = []\<rparr>"
  "DictReader_next [''SAMPLE_ID'', ''RCC_FILE''] [''S1'', ''b.RCC'']
     = \<lparr>cells = [(''SAMPLE_ID'', ''S1''), (''RCC_FILE'', ''b.RCC'')],
        restkey_cells = None, restval_keys = []\<rparr>"
  by (simp_all add: DictReader_next_def dict_zip_def)

lemma reader_yields_row:
  "length record = length fieldnames \<Longrightarrow>
   DictReader_next fieldnames record
     = \<lparr>cells = dict_zip fieldnames record, restkey_cells = None, restval_keys = []\<rparr>"
  by (simp add: DictReader_next_def)

text \<open>
  C5. The reader yields the field names \<open>SAMPLE_ID, RCC_FILE\<close> and, for the one record
  \<open>Sample A, run1.RCC\<close>, the row with \<open>Sample A\<close> under \<open>SAMPLE_ID\<close> and \<open>run1.RCC\<close> under
  \<open>RCC_FILE\<close>. The run succeeds; the header written is
  \<open>SAMPLE_ID, RCC_FILE, RCC_FILE_NAME\<close>, the new column last, and the one line written
  has the cells \<open>Sample_A, run1.RCC, run1.RCC\<close>.
\<close>

theorem scenario_single_row:
  "check_samplesheet [''SAMPLE_ID'', ''RCC_FILE'']
     [[(''SAMPLE_ID'', ''Sample A''), (''RCC_FILE'', ''run1.RCC'')]]
   = Inr [[''SAMPLE_ID'', ''RCC_FILE'', ''RCC_FILE_NAME''],
          [''Sample_A'', ''run1.RCC'', ''run1.RCC'']]"
  by (simp add: eval_defs)

subsection \<open>Validation of one row\<close>

text \<open>
  C6. A row whose sample identifier is the empty string is refused with the assertion
  "Sample input is required.", and row and checker stay as they were. Otherwise
  \<open>_validate_sample\<close> replaces every space of the identifier by an underscore. The
  identifier of an accepted row, which is the row appended to \<open>modified\<close>, is the
  substituted one; it has no space, and substituting again changes nothing.
\<close>

theorem sample_identifier_rule:
  assumes "map_of row (sample_col self) = Some s"
  shows "(s = [] \<longrightarrow>
            validate_and_transform self row =
              (Some (AssertionError ''Sample input is required.''), row, self))
       \<and> (s \<noteq> [] \<longrightarrow>
            validate_sample self row =
              (None, AList.update (sample_col self) (replace s (CHR '' '') (CHR ''_'')) row))
       \<and> (fst (validate_and_transform self row) = None \<longrightarrow>
            map_of (fst (snd (validate_and_transform self row))) (sample_col self)
              = Some (replace s (CHR '' '') (CHR ''_'')) \<and>
            modified (snd (snd (validate_and_transform self row)))
              = modified self @ [fst (snd (validate_and_transform self row))])
       \<and> CHR '' '' \<notin> set (replace s (CHR '' '') (CHR ''_''))
       \<and> replace (replace s (CHR '' '') (CHR ''_'')) (CHR '' '') (CHR ''_'')
           = replace s (CHR '' '') (CHR ''_'')"
proof (intro conjI impI)
  assume "s = []"
  with assms show "validate_and_transform self row =
      (Some (AssertionError ''Sample input is required.''), row, self)"
    by (simp add: validate_and_transform_def validate_sample_def)
next
  assume "s \<noteq> []"
  with assms show "validate_sample self row =
      (None, AList.update (sample_col self) (replace s (CHR '' '') (CHR ''_'')) row)"
    by (simp add: validate_sample_def)
next
  assume acc: "fst (validate_and_transform self row) = None"
  from accepted_row_sample(1)[OF acc assms]
  show "map_of (fst (snd (validate_and_transform self row))) (sample_col self)
          = Some (replace s (CHR '' '') (CHR ''_''))" .
  from accepted_row_sample(2)[OF acc assms]
  show "modified (snd (snd (validate_and_transform self row)))
          = modified self @ [fst (snd (validate_and_transform self row))]" .
next
  show "CHR '' '' \<notin> set (replace s (CHR '' '') (CHR ''_''))"
    by (rule replace_no_old) simp
next
  show "replace (replace s (CHR '' '') (CHR ''_'')) (CHR '' '') (CHR ''_'')
           = replace s (CHR '' '') (CHR ''_'')" by (rule replace_idem)
qed

theorem sample_identifier_rule_witness:
  "map_of [(''SAMPLE_ID'', ''Sample A 1''), (''RCC_FILE'', ''run1.RCC'')]
       (sample_col RowChecker_init) = Some ''Sample A 1''
   \<and> fst (validate_and_transform RowChecker_init
            [(''SAMPLE_ID'', ''Sample A 1''), (''RCC_FILE'', ''run1.RCC'')]) = None
   \<and> map_of (fst (snd (validate_and_transform RowChecker_init
            [(''SAMPLE_ID'', ''Sample A 1''), (''RCC_FILE'', ''run1.RCC'')])))
        (sample_col RowChecker_init) = Some ''Sample_A_1''"
proof -
  have h: "map_of [(''SAMPLE_ID'', ''Sample A 1''), (''RCC_FILE'', ''run1.RCC'')]
       (sample_col RowChecker_init) = Some ''Sample A 1''"
    by (simp add: RowChecker_init_def)
  have a: "fst (validate_and_transform RowChecker_init
            [(''SAMPLE_ID'', ''Sample A 1''), (''RCC_FILE'', ''run1.RCC'')]) = None"
    by (simp add: eval_defs)
  have r: "replace ''Sample A 1'' (CHR '' '') (CHR ''_'') = ''Sample_A_1''"
    by (simp add: replace_def)
  from sample_identifier_rule[OF h] h a r show ?thesis by simp
qed

text \<open>
  C7. Let the sample column differ from the two file columns (as the default names
  do). In an accepted row, which is the last row of \<open>modified\<close>, the basename column
  holds \<open>os.path.basename\<close> of the file reference when the input row had no such column
  or an empty cell there, and the input's own cell when that was not empty.
\<close>

theorem basename_derived_or_passed_through:
  assumes acc: "fst (validate_and_transform self row) = None"
    and rf: "map_of row (rcc_file self) = Some f"
    and d1: "sample_col self \<noteq> rcc_file self"
    and d2: "sample_col self \<noteq> rcc_file_name self"
  shows "(map_of row (rcc_file_name self) = None \<or> map_of row (rcc_file_name self) = Some []
            \<longrightarrow> map_of (fst (snd (validate_and_transform self row))) (rcc_file_name self)
                  = Some (basename f))
       \<and> (\<forall>n. map_of row (rcc_file_name self) = Some n \<and> n \<noteq> []
            \<longrightarrow> map_of (fst (snd (validate_and_transform self row))) (rcc_file_name self)
                  = Some n)
       \<and> last (modified (snd (snd (validate_and_transform self row))))
           = fst (snd (validate_and_transform self row))"
proof -
  from acc obtain row1 row2 s' f' n' where
    vs: "validate_sample self row = (None, row1)" and
    vf: "validate_rcc_file self row1 = (None, row2)" and
    vt: "validate_and_transform self row =
       (None, row2, self\<lparr>seen := insert (s', f', n') (seen self),
                          modified := modified self @ [row2]\<rparr>)"
    by (rule validate_and_transform_accepted)
  from vs obtain v where row1: "row1 = AList.update (sample_col self) v row"
    by (auto simp add: validate_sample_None)
  from row1 d1 rf have f1: "map_of row1 (rcc_file self) = Some f"
    by (simp add: update_conv')
  from row1 d2 have n1: "map_of row1 (rcc_file_name self) = map_of row (rcc_file_name self)"
    by (simp add: update_conv')
  from vf f1 have row2: "row2 = (if map_of row1 (rcc_file_name self) = None \<or>
                     map_of row1 (rcc_file_name self) = Some []
                  then AList.update (rcc_file_name self) (basename f) row1 else row1)"
    by (auto simp add: validate_rcc_file_None)
  have a: "map_of row (rcc_file_name self) = None \<or> map_of row (rcc_file_name self) = Some []
            \<longrightarrow> map_of row2 (rcc_file_name self) = Some (basename f)"
    using row2 n1 by (simp add: update_conv')
  have b: "\<forall>n. map_of row (rcc_file_name self) = Some n \<and> n \<noteq> []
            \<longrightarrow> map_of row2 (rcc_file_name self) = Some n"
    using row2 n1 by auto
  from a b vt show ?thesis by simp
qed

theorem basename_derived_or_passed_through_witness:
  "fst (validate_and_transform RowChecker_init
          [(''SAMPLE_ID'', ''S1''), (''RCC_FILE'', ''data/run1.RCC'')]) = None
   \<and> map_of (fst (snd (validate_and_transform RowChecker_init
          [(''SAMPLE_ID'', ''S1''), (''RCC_FILE'', ''data/run1.RCC'')])))
        (rcc_file_name RowChecker_init) = Some ''run1.RCC''"
proof -
  have a: "fst (validate_and_transform RowChecker_init
          [(''SAMPLE_ID'', ''S1''), (''RCC_FILE'', ''data/run1.RCC'')]) = None"
    by (simp add: eval_defs)
  have f: "map_of [(''SAMPLE_ID'', ''S1''), (''RCC_FILE'', ''data/run1.RCC'')]
             (rcc_file RowChecker_init) = Some ''data/run1.RCC''"
    by (simp add: RowChecker_init_def)
  have d1: "sample_col RowChecker_init \<noteq> rcc_file RowChecker_init"
    by (simp add: RowChecker_init_def)
  have d2: "sample_col RowChecker_init \<noteq> rcc_file_name RowChecker_init"
    by (simp add: RowChecker_init_def)
  have n: "map_of [(''SAMPLE_ID'', ''S1''), (''RCC_FILE'', ''data/run1.RCC'')]
             (rcc_file_name RowChecker_init) = None"
    by (simp add: RowChecker_init_def)
  have b: "basename ''data/run1.RCC'' = ''run1.RCC''"
    by (simp add: basename_def)
  from basename_derived_or_passed_through[OF a f d1 d2] a n b show ?thesis by simp
qed

text \<open>
  C8. A call of \<open>validate_and_transform\<close> that raises leaves the checker as it was:
  the seen-set and the accepted rows are the same. The call raises whenever
  \<open>_validate_sample\<close> raises, and whenever \<open>_validate_rcc_file\<close> raises on the row that
  \<open>_validate_sample\<close> left. The checker changes only when both validations have
  passed and the call returns normally, and then by exactly one recorded triple, that
  of the row as accepted, and one appended row.
\<close>

theorem validate_and_transform_atomic:
  "(fst (validate_and_transform self row) \<noteq> None \<longrightarrow>
      snd (snd (validate_and_transform self row)) = self)
   \<and> (fst (validate_sample self row) \<noteq> None \<longrightarrow>
      fst (validate_and_transform self row) \<noteq> None)
   \<and> (\<forall>row1. validate_sample self row = (None, row1) \<and>
             fst (validate_rcc_file self row1) \<noteq> None \<longrightarrow>
      fst (validate_and_transform self row) \<noteq> None)
   \<and> (snd (snd (validate_and_transform self row)) \<noteq> self \<longrightarrow>
      (\<exists>s f n row1 row'.
          validate_sample self row = (None, row1)
        \<and> validate_rcc_file self row1 = (None, row')
        \<and> validate_and_transform self row =
            (None, row', self\<lparr>seen := insert (s, f, n) (seen self),
                              modified := modified self @ [row']\<rparr>)
        \<and> map_of row' (sample_col self) = Some s
        \<and> map_of row' (rcc_file self) = Some f
        \<and> map_of row' (rcc_file_name self) = Some n))"
proof (intro conjI impI allI)
  assume "fst (validate_and_transform self row) \<noteq> None"
  then show "snd (snd (validate_and_transform self row)) = self"
    by (rule validate_and_transform_error)
next
  assume "fst (validate_sample self row) \<noteq> None"
  then show "fst (validate_and_transform self row) \<noteq> None"
    by (auto simp add: validate_and_transform_def split: prod.splits option.splits)
next
  fix row1
  assume "validate_sample self row = (None, row1) \<and>
             fst (validate_rcc_file self row1) \<noteq> None"
  then show "fst (validate_and_transform self row) \<noteq> None"
    by (auto simp add: validate_and_transform_def split: prod.splits option.splits)
next
  assume ch: "snd (snd (validate_and_transform self row)) \<noteq> self"
  have "fst (validate_and_transform self row) = None"
  proof (rule ccontr)
    assume "fst (validate_and_transform self row) \<noteq> None"
    then have "snd (snd (validate_and_transform self row)) = self"
      by (rule validate_and_transform_error)
    with ch show False by simp
  qed
  then obtain row1 row2 s f n where
    "validate_sample self row = (None, row1)"
    "validate_rcc_file self row1 = (None, row2)"
    "map_of row2 (sample_col self) = Some s"
    "map_of row2 (rcc_file self) = Some f"
    "map_of row2 (rcc_file_name self) = Some n"
    "validate_and_transform self row =
       (None, row2, self\<lparr>seen := insert (s, f, n) (seen self),
                          modified := modified self @ [row2]\<rparr>)"
    by (rule validate_and_transform_accepted)
  then show "\<exists>s f n row1 row'.
          validate_sample self row = (None, row1)
        \<and> validate_rcc_file self row1 = (None, row')
        \<and> validate_and_transform self row =
            (None, row', self\<lparr>seen := insert (s, f, n) (seen self),
                              modified := modified self @ [row']\<rparr>)
        \<and> map_of row' (sample_col self) = Some s
        \<and> map_of row' (rcc_file self) = Some f
        \<and> map_of row' (rcc_file_name self) = Some n"
    by blast
qed

theorem validate_and_transform_atomic_witness:
  "fst (validate_and_transform RowChecker_init
          [(''SAMPLE_ID'', ''Sample A''), (''RCC_FILE'', ''data.txt'')]) \<noteq> None
   \<and> snd (snd (validate_and_transform RowChecker_init
          [(''SAMPLE_ID'', ''Sample A''), (''RCC_FILE'', ''data.txt'')])) = RowChecker_init
   \<and> fst (snd (validate_and_transform RowChecker_init
          [(''SAMPLE_ID'', ''Sample A''), (''RCC_FILE'', ''data.txt'')]))
       = [(''SAMPLE_ID'', ''Sample_A''), (''RCC_FILE'', ''data.txt'')]"
proof -
  have a: "fst (validate_and_transform RowChecker_init
          [(''SAMPLE_ID'', ''Sample A''), (''RCC_FILE'', ''data.txt'')]) \<noteq> None"
    by (simp add: eval_defs)
  have b: "fst (snd (validate_and_transform RowChecker_init
          [(''SAMPLE_ID'', ''Sample A''), (''RCC_FILE'', ''data.txt'')]))
       = [(''SAMPLE_ID'', ''Sample_A''), (''RCC_FILE'', ''data.txt'')]"
    by (simp add: eval_defs)
  from validate_and_transform_atomic[of RowChecker_init
          "[(''SAMPLE_ID'', ''Sample A''), (''RCC_FILE'', ''data.txt'')]"] a b
  show ?thesis by simp
qed

text \<open>
  C10. A sample identifier that is not empty and consists of spaces only is not
  refused as empty: with a file reference that passes \<open>_validate_rcc_file\<close> the row is
  accepted, and its identifier becomes as many underscores.
\<close>

theorem blank_sample_accepted:
  assumes ne: "s \<noteq> []" and sp: "set s \<subseteq> {CHR '' ''}"
    and sample: "map_of row (sample_col self) = Some s"
    and rf: "map_of row (rcc_file self) = Some f"
    and fmt: "validate_rcc_format f = None"
  shows "fst (validate_and_transform self row) = None
       \<and> map_of (fst (snd (validate_and_transform self row))) (sample_col self)
           = Some (replicate (length s) (CHR ''_''))"
proof -
  let ?s' = "replace s (CHR '' '') (CHR ''_'')"
  let ?row1 = "AList.update (sample_col self) ?s' row"
  from ne sample have vs: "validate_sample self row = (None, ?row1)"
    by (simp add: validate_sample_def)
  from ne sp have "last s = CHR '' ''" using last_in_set by blast
  with fmt have "f \<noteq> s" by (auto simp add: validate_rcc_format_None)
  with sample rf have d: "sample_col self \<noteq> rcc_file self" by auto
  with rf have f1: "map_of ?row1 (rcc_file self) = Some f" by (simp add: update_conv')
  from fmt have fne: "f \<noteq> []" by (simp add: validate_rcc_format_None)
  obtain row2 where vf: "validate_rcc_file self ?row1 = (None, row2)"
    using f1 fne fmt by (auto simp add: validate_rcc_file_None)
  have s1: "map_of ?row1 (sample_col self) = Some ?s'" by (simp add: update_conv')
  from ne have rne: "?s' \<noteq> []" by (simp add: replace_Nil_iff)
  from vf s1 rne have s2: "map_of row2 (sample_col self) = Some ?s'"
    by (auto simp add: validate_rcc_file_None update_conv' split: if_splits)
  from vf f1 have f2: "map_of row2 (rcc_file self) = Some f"
    by (auto simp add: validate_rcc_file_None update_conv' split: if_splits)
  from validate_rcc_file_name_present[OF vf]
  obtain n where n2: "map_of row2 (rcc_file_name self) = Some n" by blast
  from vs vf s2 f2 n2 have "validate_and_transform self row =
       (None, row2, self\<lparr>seen := insert (?s', f, n) (seen self),
                          modified := modified self @ [row2]\<rparr>)"
    by (simp add: validate_and_transform_def)
  with s2 replace_all_old[OF sp, of "CHR ''_''"] show ?thesis by simp
qed

theorem blank_sample_accepted_witness:
  "fst (validate_and_transform RowChecker_init
          [(''SAMPLE_ID'', '' ''), (''RCC_FILE'', ''run1.RCC'')]) = None
   \<and> map_of (fst (snd (validate_and_transform RowChecker_init
          [(''SAMPLE_ID'', '' ''), (''RCC_FILE'', ''run1.RCC'')])))
        (sample_col RowChecker_init) = Some ''_''"
proof -
  have ne: "'' '' \<noteq> []" by simp
  have sp: "set '' '' \<subseteq> {CHR '' ''}" by simp
  have s: "map_of [(''SAMPLE_ID'', '' ''), (''RCC_FILE'', ''run1.RCC'')]
             (sample_col RowChecker_init) = Some '' ''"
    by (simp add: RowChecker_init_def)
  have f: "map_of [(''SAMPLE_ID'', '' ''), (''RCC_FILE'', ''run1.RCC'')]
             (rcc_file RowChecker_init) = Some ''run1.RCC''"
    by (simp add: RowChecker_init_def)
  have v: "validate_rcc_format ''run1.RCC'' = None"
    by (simp add: validate_rcc_format_None)
  from blank_sample_accepted[OF ne sp s f v] show ?thesis by simp
qed

text \<open>
  C2. The claim is that no file reference is accepted unless it ends in \<open>.RCC\<close>.
  \<open>VALID_FORMATS\<close> is the string \<open>".RCC"\<close>, so the loop over it tests the one-character
  suffixes \<open>"."\<close>, \<open>"R"\<close> and \<open>"C"\<close>: the row with the file reference \<open>notes.C\<close> is
  accepted, although \<open>notes.C\<close> does not end in \<open>.RCC\<close>.
\<close>

theorem file_not_ending_in_RCC_accepted:
  "validate_and_transform RowChecker_init
       [(''SAMPLE_ID'', ''S1''), (''RCC_FILE'', ''notes.C'')]
     = (None,
        [(''SAMPLE_ID'', ''S1''), (''RCC_FILE'', ''notes.C''), (''RCC_FILE_NAME'', ''notes.C'')],
        RowChecker_init
          \<lparr>seen := {(''S1'', ''notes.C'', ''notes.C'')},
           modified := [[(''SAMPLE_ID'', ''S1''), (''RCC_FILE'', ''notes.C''),
                         (''RCC_FILE_NAME'', ''notes.C'')]]\<rparr>)
   \<and> \<not> endswith ''notes.C'' ''.RCC''"
  by (simp add: eval_defs)

subsection \<open>The uniqueness and rename pass\<close>

text \<open>
  C3. Let any sequence of rows be offered to a fresh checker. Then
  \<open>validate_unique_samples\<close> raises the assertion "The pair of sample name and FASTQ
  must be unique." exactly when two accepted rows have the same triple of sample
  identifier, file reference and basename, which is exactly when the seen-set is
  smaller than the list of accepted rows; and when it raises, the checker, and so
  every row's sample identifier, is as before.
\<close>

theorem duplicate_rows_rejected:
  assumes fresh: "seen c0 = {}" "modified c0 = []"
  shows "(fst (validate_unique_samples (offer_all c0 rows))
            = Some (AssertionError ''The pair of sample name and FASTQ must be unique.'')
          \<longleftrightarrow> (\<exists>i j. i < j \<and> j < length (modified (offer_all c0 rows)) \<and>
                 key_triple c0 (modified (offer_all c0 rows) ! i)
                   = key_triple c0 (modified (offer_all c0 rows) ! j)))
       \<and> ((\<exists>i j. i < j \<and> j < length (modified (offer_all c0 rows)) \<and>
                 key_triple c0 (modified (offer_all c0 rows) ! i)
                   = key_triple c0 (modified (offer_all c0 rows) ! j))
          \<longleftrightarrow> card (seen (offer_all c0 rows)) < length (modified (offer_all c0 rows)))
       \<and> (fst (validate_unique_samples (offer_all c0 rows))
            = Some (AssertionError ''The pair of sample name and FASTQ must be unique.'')
          \<longrightarrow> snd (validate_unique_samples (offer_all c0 rows)) = offer_all c0 rows)"
proof -
  let ?st = "offer_all c0 rows"
  let ?ks = "map (key_triple ?st) (modified ?st)"
  let ?dup = "\<exists>i j. i < j \<and> j < length (modified ?st) \<and>
                 key_triple c0 (modified ?st ! i) = key_triple c0 (modified ?st ! j)"
  let ?err = "Some (AssertionError ''The pair of sample name and FASTQ must be unique.'')"
  from fresh have "triples_recorded c0" by (simp add: triples_recorded_def)
  then have "triples_recorded ?st" by (rule triples_recorded_offer_all)
  then have card: "card (seen ?st) = card (set ?ks)" by (rule triples_recorded_card)
  have kc: "key_triple ?st = key_triple c0"
    by (rule key_triple_cong) (simp_all add: offer_all_columns)
  have le: "card (set ?ks) \<le> length ?ks" by (rule card_length)
  have d: "distinct ?ks \<longleftrightarrow> card (set ?ks) = length ?ks"
    using card_distinct distinct_card by blast
  have "\<not> distinct ?ks \<longleftrightarrow> (\<exists>i j. i < j \<and> j < length ?ks \<and> ?ks ! i = ?ks ! j)"
    by (rule not_distinct_nth)
  also have "\<dots> \<longleftrightarrow> ?dup"
  proof -
    have "\<And>i j. i < j \<and> j < length ?ks \<and> ?ks ! i = ?ks ! j \<longleftrightarrow>
        i < j \<and> j < length (modified ?st) \<and>
        key_triple c0 (modified ?st ! i) = key_triple c0 (modified ?st ! j)"
      by (auto simp add: kc)
    then show ?thesis by simp
  qed
  finally have dup: "?dup \<longleftrightarrow> card (seen ?st) \<noteq> length (modified ?st)"
    using d card by simp
  from le card have lt: "card (seen ?st) \<noteq> length (modified ?st)
      \<longleftrightarrow> card (seen ?st) < length (modified ?st)" by auto
  have a: "fst (validate_unique_samples ?st) = ?err
      \<longleftrightarrow> card (seen ?st) \<noteq> length (modified ?st)"
  proof (cases "card (seen ?st) \<noteq> length (modified ?st)")
    case True
    then show ?thesis by (simp add: validate_unique_samples_def)
  next
    case False
    obtain e rows' where r: "rename_loop (sample_col ?st) (\<lambda>_. 0) (modified ?st) = (e, rows')"
      by (cases "rename_loop (sample_col ?st) (\<lambda>_. 0) (modified ?st)")
    from rename_loop_no_assertion[OF r] have "e \<noteq> ?err" .
    with False r show ?thesis by (simp add: validate_unique_samples_def)
  qed
  have b: "fst (validate_unique_samples ?st) = ?err
      \<longrightarrow> snd (validate_unique_samples ?st) = ?st"
    using a by (simp add: validate_unique_samples_def)
  from a b dup lt show ?thesis by blast
qed

theorem duplicate_rows_rejected_witness:
  "seen RowChecker_init = {} \<and> modified RowChecker_init = []
   \<and> fst (validate_unique_samples (offer_all RowChecker_init [[(''SAMPLE_ID'', ''S1''), (''RCC_FILE'', ''a.RCC'')], [(''SAMPLE_ID'', ''S1''), (''RCC_FILE'', ''a.RCC'')]]))
       = Some (AssertionError ''The pair of sample name and FASTQ must be unique.'')
   \<and> card (seen (offer_all RowChecker_init [[(''SAMPLE_ID'', ''S1''), (''RCC_FILE'', ''a.RCC'')], [(''SAMPLE_ID'', ''S1''), (''RCC_FILE'', ''a.RCC'')]]))
       < length (modified (offer_all RowChecker_init [[(''SAMPLE_ID'', ''S1''), (''RCC_FILE'', ''a.RCC'')], [(''SAMPLE_ID'', ''S1''), (''RCC_FILE'', ''a.RCC'')]]))
   \<and> snd (validate_unique_samples (offer_all RowChecker_init [[(''SAMPLE_ID'', ''S1''), (''RCC_FILE'', ''a.RCC'')], [(''SAMPLE_ID'', ''S1''), (''RCC_FILE'', ''a.RCC'')]]))
       = offer_all RowChecker_init [[(''SAMPLE_ID'', ''S1''), (''RCC_FILE'', ''a.RCC'')], [(''SAMPLE_ID'', ''S1''), (''RCC_FILE'', ''a.RCC'')]]"
proof -
  have h1: "seen RowChecker_init = {}" and h2: "modified RowChecker_init = []"
    by (simp_all add: RowChecker_init_def)
  have e: "fst (validate_unique_samples (offer_all RowChecker_init [[(''SAMPLE_ID'', ''S1''), (''RCC_FILE'', ''a.RCC'')], [(''SAMPLE_ID'', ''S1''), (''RCC_FILE'', ''a.RCC'')]]))
       = Some (AssertionError ''The pair of sample name and FASTQ must be unique.'')"
    by (simp add: eval_defs)
  from duplicate_rows_rejected[OF h1 h2, of "[[(''SAMPLE_ID'', ''S1''), (''RCC_FILE'', ''a.RCC'')], [(''SAMPLE_ID'', ''S1''), (''RCC_FILE'', ''a.RCC'')]]"] e h1 h2
  show ?thesis by blast
qed

text \<open>
  C4. When \<open>validate_unique_samples\<close> returns normally, the accepted rows are as many
  as before and each is the old row with a new cell in the sample column only: the old
  identifier followed by \<open>_T\<close> and a number; every other column, and the seen-set, are
  untouched. For every identifier \<open>s\<close>, the rows that had \<open>s\<close> before the pass carry, in
  their order in the list, \<open>s_T1\<close>, \<open>s_T2\<close>, ..., \<open>s_Tk\<close>, where \<open>k\<close> is the number of
  those rows.
\<close>

theorem rename_pass_numbering:
  assumes ok: "fst (validate_unique_samples self) = None"
  shows "length (modified (snd (validate_unique_samples self))) = length (modified self)
       \<and> (\<forall>i < length (modified self). \<exists>s v.
             map_of (modified self ! i) (sample_col self) = Some s \<and>
             modified (snd (validate_unique_samples self)) ! i
               = AList.update (sample_col self) (s @ ''_T'' @ v) (modified self ! i))
       \<and> (\<forall>i < length (modified self). \<forall>k. k \<noteq> sample_col self \<longrightarrow>
             map_of (modified (snd (validate_unique_samples self)) ! i) k
               = map_of (modified self ! i) k)
       \<and> (\<forall>s. map (\<lambda>(r, r'). map_of r' (sample_col self))
                 (filter (\<lambda>(r, r'). map_of r (sample_col self) = Some s)
                    (zip (modified self) (modified (snd (validate_unique_samples self)))))
               = map (\<lambda>n. Some (s @ ''_T'' @ str n))
                   [1 ..< Suc (length (filter (\<lambda>r. map_of r (sample_col self) = Some s)
                                         (modified self)))])
       \<and> seen (snd (validate_unique_samples self)) = seen self"
proof -
  obtain self' where v: "validate_unique_samples self = (None, self')"
    using ok by (cases "validate_unique_samples self") simp
  let ?rows = "modified self" and ?rows' = "modified self'" and ?col = "sample_col self"
  from validate_unique_samples_result[OF v]
  have loop: "rename_loop ?col (\<lambda>_. 0) ?rows = (None, ?rows')"
    and self': "self' = self\<lparr>modified := ?rows'\<rparr>" by auto
  note upd = rename_loop_updates[OF loop]
  from upd have len: "length ?rows' = length ?rows" by (simp add: list_all2_lengthD)
  have a: "\<forall>i < length ?rows. \<exists>s v. map_of (?rows ! i) ?col = Some s \<and>
             ?rows' ! i = AList.update ?col (s @ ''_T'' @ v) (?rows ! i)"
  proof (intro allI impI)
    fix i assume "i < length ?rows"
    from list_all2_nthD[OF upd this]
    show "\<exists>s v. map_of (?rows ! i) ?col = Some s \<and>
             ?rows' ! i = AList.update ?col (s @ ''_T'' @ v) (?rows ! i)" by blast
  qed
  have b: "\<forall>i < length ?rows. \<forall>k. k \<noteq> ?col \<longrightarrow>
             map_of (?rows' ! i) k = map_of (?rows ! i) k"
  proof (intro allI impI)
    fix i k assume i: "i < length ?rows" and k: "k \<noteq> ?col"
    from a i obtain w where "?rows' ! i = AList.update ?col w (?rows ! i)" by blast
    with k show "map_of (?rows' ! i) k = map_of (?rows ! i) k" by (simp add: update_conv')
  qed
  have c: "\<forall>s. map (\<lambda>(r, r'). map_of r' ?col)
                 (filter (\<lambda>(r, r'). map_of r ?col = Some s) (zip ?rows ?rows'))
               = map (\<lambda>n. Some (s @ ''_T'' @ str n))
                   [1 ..< Suc (length (filter (\<lambda>r. map_of r ?col = Some s) ?rows))]"
    using rename_loop_numbering[OF loop] by simp
  from validate_unique_samples_fields(4)[of self] v have d: "seen self' = seen self" by simp
  from len a b c d show ?thesis unfolding v by simp
qed

theorem rename_pass_numbering_witness:
  "fst (validate_unique_samples (offer_all RowChecker_init [[(''SAMPLE_ID'', ''S1''), (''RCC_FILE'', ''a.RCC'')], [(''SAMPLE_ID'', ''S2''), (''RCC_FILE'', ''b.RCC'')], [(''SAMPLE_ID'', ''S1''), (''RCC_FILE'', ''dir/c.RCC'')]])) = None
   \<and> map (\<lambda>r. map_of r ''SAMPLE_ID'')
         (modified (snd (validate_unique_samples (offer_all RowChecker_init [[(''SAMPLE_ID'', ''S1''), (''RCC_FILE'', ''a.RCC'')], [(''SAMPLE_ID'', ''S2''), (''RCC_FILE'', ''b.RCC'')], [(''SAMPLE_ID'', ''S1''), (''RCC_FILE'', ''dir/c.RCC'')]]))))
       = [Some ''S1_T1'', Some ''S2_T1'', Some ''S1_T2'']
   \<and> map (\<lambda>(r, r'). map_of r' ''SAMPLE_ID'')
         (filter (\<lambda>(r, r'). map_of r ''SAMPLE_ID'' = Some ''S1'')
            (zip (modified (offer_all RowChecker_init [[(''SAMPLE_ID'', ''S1''), (''RCC_FILE'', ''a.RCC'')], [(''SAMPLE_ID'', ''S2''), (''RCC_FILE'', ''b.RCC'')], [(''SAMPLE_ID'', ''S1''), (''RCC_FILE'', ''dir/c.RCC'')]]))
                 (modified (snd (validate_unique_samples
                    (offer_all RowChecker_init [[(''SAMPLE_ID'', ''S1''), (''RCC_FILE'', ''a.RCC'')], [(''SAMPLE_ID'', ''S2''), (''RCC_FILE'', ''b.RCC'')], [(''SAMPLE_ID'', ''S1''), (''RCC_FILE'', ''dir/c.RCC'')]]))))))
       = [Some (''S1'' @ ''_T'' @ str 1), Some (''S1'' @ ''_T'' @ str 2)]"
proof -
  have h: "fst (validate_unique_samples (offer_all RowChecker_init [[(''SAMPLE_ID'', ''S1''), (''RCC_FILE'', ''a.RCC'')], [(''SAMPLE_ID'', ''S2''), (''RCC_FILE'', ''b.RCC'')], [(''SAMPLE_ID'', ''S1''), (''RCC_FILE'', ''dir/c.RCC'')]])) = None"
    by (simp add: eval_defs)
  have m: "map (\<lambda>r. map_of r ''SAMPLE_ID'')
         (modified (snd (validate_unique_samples (offer_all RowChecker_init [[(''SAMPLE_ID'', ''S1''), (''RCC_FILE'', ''a.RCC'')], [(''SAMPLE_ID'', ''S2''), (''RCC_FILE'', ''b.RCC'')], [(''SAMPLE_ID'', ''S1''), (''RCC_FILE'', ''dir/c.RCC'')]]))))
       = [Some ''S1_T1'', Some ''S2_T1'', Some ''S1_T2'']"
    by (simp add: eval_defs str.simps)
  have c: "sample_col (offer_all RowChecker_init [[(''SAMPLE_ID'', ''S1''), (''RCC_FILE'', ''a.RCC'')], [(''SAMPLE_ID'', ''S2''), (''RCC_FILE'', ''b.RCC'')], [(''SAMPLE_ID'', ''S1''), (''RCC_FILE'', ''dir/c.RCC'')]]) = ''SAMPLE_ID''"
    by (simp add: offer_all_columns RowChecker_init_def)
  have k: "length (filter (\<lambda>r. map_of r ''SAMPLE_ID'' = Some ''S1'')
             (modified (offer_all RowChecker_init [[(''SAMPLE_ID'', ''S1''), (''RCC_FILE'', ''a.RCC'')], [(''SAMPLE_ID'', ''S2''), (''RCC_FILE'', ''b.RCC'')], [(''SAMPLE_ID'', ''S1''), (''RCC_FILE'', ''dir/c.RCC'')]]))) = 2"
    by (simp add: eval_defs)
  have u: "[1 ..< Suc 2] = [1, 2]" by (simp add: upt_rec)
  from rename_pass_numbering[OF h, THEN conjunct2, THEN conjunct2, THEN conjunct2,
      THEN conjunct1, THEN spec, of "''S1''"]
  have "map (\<lambda>(r, r'). map_of r' ''SAMPLE_ID'')
         (filter (\<lambda>(r, r'). map_of r ''SAMPLE_ID'' = Some ''S1'')
            (zip (modified (offer_all RowChecker_init [[(''SAMPLE_ID'', ''S1''), (''RCC_FILE'', ''a.RCC'')], [(''SAMPLE_ID'', ''S2''), (''RCC_FILE'', ''b.RCC'')], [(''SAMPLE_ID'', ''S1''), (''RCC_FILE'', ''dir/c.RCC'')]]))
                 (modified (snd (validate_unique_samples
                    (offer_all RowChecker_init [[(''SAMPLE_ID'', ''S1''), (''RCC_FILE'', ''a.RCC'')], [(''SAMPLE_ID'', ''S2''), (''RCC_FILE'', ''b.RCC'')], [(''SAMPLE_ID'', ''S1''), (''RCC_FILE'', ''dir/c.RCC'')]]))))))
       = map (\<lambda>n. Some (''S1'' @ ''_T'' @ str n)) [1 ..< Suc 2]"
    by (simp only: c k)
  with h m u show ?thesis by simp
qed

text \<open>
  C9. Start from a checker without accepted rows and call the two public methods in
  any order, any number of times: every accepted row has a basename cell, and it is
  not empty. This is so because a row that \<open>validate_and_transform\<close> accepts has such a
  cell (a file reference that passes the format test has a last character other than
  \<open>/\<close>, so its basename is not empty), and because the rename pass leaves the basename
  column of every row as it was when the sample column is another column.
\<close>

theorem basename_column_never_empty:
  assumes "modified c0 = []"
  shows "(\<forall>row \<in> set (modified (run_calls c0 calls)).
            \<exists>n. map_of row (rcc_file_name c0) = Some n \<and> n \<noteq> [])
       \<and> (fst (validate_and_transform self row) = None \<longrightarrow>
            (\<exists>n. map_of (fst (snd (validate_and_transform self row))) (rcc_file_name self)
                   = Some n \<and> n \<noteq> []))
       \<and> (sample_col self \<noteq> rcc_file_name self \<longrightarrow>
            map (\<lambda>r. map_of r (rcc_file_name self))
                (modified (snd (validate_unique_samples self)))
              = map (\<lambda>r. map_of r (rcc_file_name self)) (modified self))"
proof (intro conjI impI)
  from assms have "basenames_present c0" by (simp add: basenames_present_def)
  from run_calls_invariant[OF this, of calls]
  have "basenames_present (run_calls c0 calls)"
    and "rcc_file_name (run_calls c0 calls) = rcc_file_name c0" by simp_all
  then show "\<forall>row \<in> set (modified (run_calls c0 calls)).
            \<exists>n. map_of row (rcc_file_name c0) = Some n \<and> n \<noteq> []"
    unfolding basenames_present_def by simp
next
  assume "fst (validate_and_transform self row) = None"
  then show "\<exists>n. map_of (fst (snd (validate_and_transform self row))) (rcc_file_name self)
                   = Some n \<and> n \<noteq> []"
    by (rule accepted_row_basename)
next
  assume d: "sample_col self \<noteq> rcc_file_name self"
  obtain e c' where v: "validate_unique_samples self = (e, c')"
    by (cases "validate_unique_samples self")
  from validate_unique_samples_result[OF v]
  consider "c' = self"
    | "rename_loop (sample_col self) (\<lambda>_. 0) (modified self) = (e, modified c')" by blast
  then have "map (\<lambda>r. map_of r (rcc_file_name self)) (modified c')
              = map (\<lambda>r. map_of r (rcc_file_name self)) (modified self)"
  proof cases
    case 1
    then show ?thesis by simp
  next
    case 2
    from rename_loop_other_column[OF 2] d show ?thesis by simp
  qed
  with v show "map (\<lambda>r. map_of r (rcc_file_name self))
                (modified (snd (validate_unique_samples self)))
              = map (\<lambda>r. map_of r (rcc_file_name self)) (modified self)" by simp
qed

theorem basename_column_never_empty_witness:
  "modified RowChecker_init = []
   \<and> map (\<lambda>r. map_of r ''RCC_FILE_NAME'')
         (modified (run_calls RowChecker_init
            [Validate_and_transform [(''SAMPLE_ID'', ''S1''), (''RCC_FILE'', ''a.RCC'')], Validate_and_transform [(''SAMPLE_ID'', ''S 2''), (''RCC_FILE'', ''dir/c.RCC''), (''RCC_FILE_NAME'', '''')], Validate_unique_samples]))
       = [Some ''a.RCC'', Some ''c.RCC'']
   \<and> list_all (\<lambda>row. \<exists>n. map_of row (rcc_file_name RowChecker_init) = Some n \<and> n \<noteq> [])
         (modified (run_calls RowChecker_init
            [Validate_and_transform [(''SAMPLE_ID'', ''S1''), (''RCC_FILE'', ''a.RCC'')], Validate_and_transform [(''SAMPLE_ID'', ''S 2''), (''RCC_FILE'', ''dir/c.RCC''), (''RCC_FILE_NAME'', '''')], Validate_unique_samples]))"
proof -
  have h: "modified RowChecker_init = []" by (simp add: RowChecker_init_def)
  have m: "map (\<lambda>r. map_of r ''RCC_FILE_NAME'')
         (modified (run_calls RowChecker_init
            [Validate_and_transform [(''SAMPLE_ID'', ''S1''), (''RCC_FILE'', ''a.RCC'')], Validate_and_transform [(''SAMPLE_ID'', ''S 2''), (''RCC_FILE'', ''dir/c.RCC''), (''RCC_FILE_NAME'', '''')], Validate_unique_samples]))
       = [Some ''a.RCC'', Some ''c.RCC'']"
    by (simp add: eval_defs str.simps)
  from basename_column_never_empty[OF h, of
      "[Validate_and_transform [(''SAMPLE_ID'', ''S1''), (''RCC_FILE'', ''a.RCC'')], Validate_and_transform [(''SAMPLE_ID'', ''S 2''), (''RCC_FILE'', ''dir/c.RCC''), (''RCC_FILE_NAME'', '''')], Validate_unique_samples]"]
    h m
  show ?thesis unfolding list_all_iff by blast
qed

subsection \<open>The run never renames\<close>

text \<open>
  C1 as stated fails: \<open>check_samplesheet\<close> never calls \<open>validate_unique_samples\<close>. For
  the two records \<open>S1, a.RCC\<close> and \<open>S1, b.RCC\<close> both rows are accepted and written, and
  both lines carry the sample identifier \<open>S1\<close>, not \<open>S1_T1\<close> and \<open>S1_T2\<close>.
\<close>

theorem rename_pass_not_applied:
  "check_samplesheet [''SAMPLE_ID'', ''RCC_FILE'']
     [[(''SAMPLE_ID'', ''S1''), (''RCC_FILE'', ''a.RCC'')],
      [(''SAMPLE_ID'', ''S1''), (''RCC_FILE'', ''b.RCC'')]]
     = Inr [[''SAMPLE_ID'', ''RCC_FILE'', ''RCC_FILE_NAME''],
            [''S1'', ''a.RCC'', ''a.RCC''],
            [''S1'', ''b.RCC'', ''b.RCC'']]
   \<and> check_samplesheet [''SAMPLE_ID'', ''RCC_FILE'']
     [[(''SAMPLE_ID'', ''S1''), (''RCC_FILE'', ''a.RCC'')],
      [(''SAMPLE_ID'', ''S1''), (''RCC_FILE'', ''b.RCC'')]]
     \<noteq> Inr [[''SAMPLE_ID'', ''RCC_FILE'', ''RCC_FILE_NAME''],
            [''S1_T1'', ''a.RCC'', ''a.RCC''],
            [''S1_T2'', ''b.RCC'', ''b.RCC'']]"
  by (simp add: eval_defs)

text \<open>
  C1 as amended. Let the header have the two required columns, let every row have
  cells for columns of the header only (so no record is longer than the header), let
  every row pass \<open>validate_and_transform\<close>, and let no two accepted rows have the same
  triple of sample identifier, file reference and basename. Then the run succeeds and
  writes the header (with \<open>RCC_FILE_NAME\<close> appended if it was not there) and then, for
  each input row in order, that row as \<open>validate_and_transform\<close> alone left it. No
  rename takes place: the sample identifier written is the input's with spaces
  replaced by underscores, without a \<open>_T\<close> suffix. Nothing is said of an input in which
  two accepted rows have the same triple.
\<close>

theorem check_samplesheet_writes_validated_rows:
  assumes req: "{''RCC_FILE'', ''SAMPLE_ID''} \<subseteq> set fieldnames"
    and keys: "\<forall>row \<in> set rows. set (map fst row) \<subseteq> set fieldnames"
    and ok: "\<forall>row \<in> set rows. fst (validate_and_transform RowChecker_init row) = None"
    and uniq: "distinct (map (\<lambda>row. key_triple RowChecker_init
                   (fst (snd (validate_and_transform RowChecker_init row)))) rows)"
  shows "check_samplesheet fieldnames rows =
           Inr ((if ''RCC_FILE_NAME'' \<notin> set fieldnames
                 then fieldnames @ [''RCC_FILE_NAME''] else fieldnames) #
                map (\<lambda>row. map (\<lambda>k. case map_of
                                     (fst (snd (validate_and_transform RowChecker_init row))) k
                                   of None \<Rightarrow> [] | Some v \<Rightarrow> v)
                             (if ''RCC_FILE_NAME'' \<notin> set fieldnames
                              then fieldnames @ [''RCC_FILE_NAME''] else fieldnames))
                    rows)
       \<and> (\<forall>row \<in> set rows. \<exists>s. map_of row ''SAMPLE_ID'' = Some s \<and>
             map_of (fst (snd (validate_and_transform RowChecker_init row))) ''SAMPLE_ID''
               = Some (replace s (CHR '' '') (CHR ''_'')))"
proof
  let ?header = "if ''RCC_FILE_NAME'' \<notin> set fieldnames
                 then fieldnames @ [''RCC_FILE_NAME''] else fieldnames"
  let ?t = "\<lambda>row. fst (snd (validate_and_transform RowChecker_init row))"
  from validate_rows_all_accepted[OF refl refl refl ok] obtain c' where
    vr: "validate_rows RowChecker_init rows = Inr c'" and
    "modified c' = modified RowChecker_init @ map ?t rows" by blast
  then have m: "modified c' = map ?t rows" by (simp add: RowChecker_init_def)
  have "\<forall>row' \<in> set (map ?t rows). set (map fst row') \<subseteq> set ?header"
  proof
    fix row' assume "row' \<in> set (map ?t rows)"
    then obtain row where row: "row \<in> set rows" and row': "row' = ?t row" by auto
    from ok row have "fst (validate_and_transform RowChecker_init row) = None" by simp
    from accepted_row_keys[OF this] row'
    have "set (map fst row') \<subseteq> insert ''RCC_FILE_NAME'' (set (map fst row))"
      by (simp add: RowChecker_init_def)
    moreover from keys row have "set (map fst row) \<subseteq> set fieldnames" by simp
    ultimately have "set (map fst row') \<subseteq> insert ''RCC_FILE_NAME'' (set fieldnames)"
      by blast
    then show "set (map fst row') \<subseteq> set ?header" by (cases "''RCC_FILE_NAME'' \<in> set fieldnames") auto
  qed
  from writerows_all[OF this]
  have w: "writerows ?header (map ?t rows)
      = Inr (map (\<lambda>row. map (\<lambda>k. case map_of row k of None \<Rightarrow> [] | Some v \<Rightarrow> v) ?header)
               (map ?t rows))" .
  from req vr m w show "check_samplesheet fieldnames rows =
      Inr (?header # map (\<lambda>row. map (\<lambda>k. case map_of (?t row) k
                                   of None \<Rightarrow> [] | Some v \<Rightarrow> v) ?header) rows)"
    by (simp add: check_samplesheet_def Let_def comp_def)
next
  show "\<forall>row \<in> set rows. \<exists>s. map_of row ''SAMPLE_ID'' = Some s \<and>
             map_of (fst (snd (validate_and_transform RowChecker_init row))) ''SAMPLE_ID''
               = Some (replace s (CHR '' '') (CHR ''_''))"
  proof
    fix row assume "row \<in> set rows"
    with ok have acc: "fst (validate_and_transform RowChecker_init row) = None" by simp
    then obtain row1 where "validate_sample RowChecker_init row = (None, row1)"
      by (rule validate_and_transform_accepted)
    then obtain s where s: "map_of row (sample_col RowChecker_init) = Some s"
      by (auto simp add: validate_sample_None)
    from accepted_row_sample(1)[OF acc s] s
    show "\<exists>s. map_of row ''SAMPLE_ID'' = Some s \<and>
             map_of (fst (snd (validate_and_transform RowChecker_init row))) ''SAMPLE_ID''
               = Some (replace s (CHR '' '') (CHR ''_''))"
      by (simp add: RowChecker_init_def)
  qed
qed

theorem check_samplesheet_writes_validated_rows_witness:
  "{''RCC_FILE'', ''SAMPLE_ID''} \<subseteq> set [''SAMPLE_ID'', ''RCC_FILE'']
   \<and> set (map fst [(''SAMPLE_ID'', ''S1''), (''RCC_FILE'', ''a.RCC'')]) \<subseteq> set [''SAMPLE_ID'', ''RCC_FILE'']
   \<and> set (map fst [(''SAMPLE_ID'', ''S1''), (''RCC_FILE'', ''b.RCC'')]) \<subseteq> set [''SAMPLE_ID'', ''RCC_FILE'']
   \<and> fst (validate_and_transform RowChecker_init [(''SAMPLE_ID'', ''S1''), (''RCC_FILE'', ''a.RCC'')]) = None
   \<and> fst (validate_and_transform RowChecker_init [(''SAMPLE_ID'', ''S1''), (''RCC_FILE'', ''b.RCC'')]) = None
   \<and> distinct (map (\<lambda>row. key_triple RowChecker_init
                   (fst (snd (validate_and_transform RowChecker_init row)))) [[(''SAMPLE_ID'', ''S1''), (''RCC_FILE'', ''a.RCC'')], [(''SAMPLE_ID'', ''S1''), (''RCC_FILE'', ''b.RCC'')]])
   \<and> check_samplesheet [''SAMPLE_ID'', ''RCC_FILE''] [[(''SAMPLE_ID'', ''S1''), (''RCC_FILE'', ''a.RCC'')], [(''SAMPLE_ID'', ''S1''), (''RCC_FILE'', ''b.RCC'')]]
       = Inr [[''SAMPLE_ID'', ''RCC_FILE'', ''RCC_FILE_NAME''],
              [''S1'', ''a.RCC'', ''a.RCC''],
              [''S1'', ''b.RCC'', ''b.RCC'']]"
proof -
  have req: "{''RCC_FILE'', ''SAMPLE_ID''} \<subseteq> set [''SAMPLE_ID'', ''RCC_FILE'']" by simp
  have keys: "\<forall>row \<in> set [[(''SAMPLE_ID'', ''S1''), (''RCC_FILE'', ''a.RCC'')], [(''SAMPLE_ID'', ''S1''), (''RCC_FILE'', ''b.RCC'')]]. set (map fst row) \<subseteq> set [''SAMPLE_ID'', ''RCC_FILE'']"
    by simp
  have ok: "\<forall>row \<in> set [[(''SAMPLE_ID'', ''S1''), (''RCC_FILE'', ''a.RCC'')], [(''SAMPLE_ID'', ''S1''), (''RCC_FILE'', ''b.RCC'')]]. fst (validate_and_transform RowChecker_init row) = None"
    by (simp add: eval_defs)
  have t1: "fst (snd (validate_and_transform RowChecker_init [(''SAMPLE_ID'', ''S1''), (''RCC_FILE'', ''a.RCC'')]))
      = [(''SAMPLE_ID'', ''S1''), (''RCC_FILE'', ''a.RCC''), (''RCC_FILE_NAME'', ''a.RCC'')]"
    by (simp add: eval_defs)
  have t2: "fst (snd (validate_and_transform RowChecker_init [(''SAMPLE_ID'', ''S1''), (''RCC_FILE'', ''b.RCC'')]))
      = [(''SAMPLE_ID'', ''S1''), (''RCC_FILE'', ''b.RCC''), (''RCC_FILE_NAME'', ''b.RCC'')]"
    by (simp add: eval_defs)
  have uniq: "distinct (map (\<lambda>row. key_triple RowChecker_init
                   (fst (snd (validate_and_transform RowChecker_init row)))) [[(''SAMPLE_ID'', ''S1''), (''RCC_FILE'', ''a.RCC'')], [(''SAMPLE_ID'', ''S1''), (''RCC_FILE'', ''b.RCC'')]])"
    by (simp add: eval_defs)
  from check_samplesheet_writes_validated_rows[OF req keys ok uniq] req keys ok uniq t1 t2
  show ?thesis by simp
qed

end
